theory Spec2Isabelle
  imports Complex_Main "HOL-Library.Signed_Division"
begin

section \<open>FluxEngine: job admission, worker loop and task executors\<close>

text \<open>
  The development embeds the Go sources of FluxEngine: \<open>internal/models/job.go\<close>
  (the job value and its identifier), \<open>internal/handler/job_handler.go\<close> (admission) and
  the worker package (dispatch by type, the two task executors, the statistics engine).

  Conventions of the embedding.
  \<^item> A Go \<open>float64\<close> is a \<open>real\<close>: arithmetic is exact, there is no NaN and no
    infinity. The properties below are about indices, control flow and values that
    are exact in binary floating point (small integers and their halves).
  \<^item> A Go \<open>int\<close> is an \<open>int\<close>; the platform is taken to be 64-bit, where the length
    of a slice of \<open>float64\<close> is far below \<open>2^63 / 99\<close>, so that the index arithmetic of the
    statistics engine cannot overflow. Its operands are non-negative, where Go's
    truncated division agrees with \<open>div\<close> and \<open>mod\<close>.
  \<^item> A run-time panic is a result of its own (\<open>Panicked\<close>), distinct from a returned
    \<open>error\<close> value.
  \<^item> Of the log, the records of \<open>processJob\<close> are kept (without durations); the
    progress lines of the handler and of the executors are left out.
  \<^item> What the sources take from outside (the system clock, \<open>crypto/rand\<close>, the bcrypt
    package, the platform's conversion of an out-of-range \<open>float64\<close> to \<open>int\<close>) is a
    field of the record \<open>env\<close>.
\<close>

subsection \<open>Run-time values\<close>

text \<open>The dynamic values an \<open>interface{}\<close> holds in this program.\<close>

datatype gval =
    VNil
  | VBool bool
  | VFloat64 real
  | VInt int
  | VString string
  | VSlice "gval list"
  | VMap "(string \<times> gval) list"

text \<open>A call either returns or panics.\<close>

datatype 'a exec = Returned 'a | Panicked string

definition bind_exec :: "'a exec \<Rightarrow> ('a \<Rightarrow> 'b exec) \<Rightarrow> 'b exec" where
  "bind_exec m f = (case m of Panicked e \<Rightarrow> Panicked e | Returned x \<Rightarrow> f x)"

text \<open>A \<open>map[string]interface{}\<close>; \<open>None\<close> is the nil map.\<close>

type_synonym gmap = "string \<rightharpoonup> gval"

definition map_get :: "gmap option \<Rightarrow> string \<Rightarrow> gval option" where
  \<comment> \<open>\<open>v, ok := m[k]\<close>: reading a nil map finds nothing.\<close>
  "map_get m k = (case m of None \<Rightarrow> None | Some f \<Rightarrow> f k)"

definition map_set :: "gmap option \<Rightarrow> string \<Rightarrow> gval \<Rightarrow> gmap option exec" where
  \<comment> \<open>\<open>m[k] = v\<close>: writing to a nil map panics.\<close>
  "map_set m k v =
     (case m of None \<Rightarrow> Panicked ''assignment to entry in nil map''
      | Some f \<Rightarrow> Returned (Some (f(k \<mapsto> v))))"

subsection \<open>Slices of float64 on a heap\<close>

text \<open>
  A slice is the address of its backing array; the heap is the list of the arrays
  allocated so far, an address being a position in it.
\<close>

type_synonym heap = "real list list"

definition index_at :: "real list \<Rightarrow> int \<Rightarrow> real exec" where
  \<comment> \<open>\<open>xs[i]\<close> with Go's bounds check.\<close>
  "index_at xs i =
     (if 0 \<le> i \<and> i < int (length xs) then Returned (xs ! nat i)
      else Panicked ''index out of range'')"

definition make_float64s :: "heap \<Rightarrow> int \<Rightarrow> (heap \<times> nat) exec" where
  \<comment> \<open>\<open>make([]float64, n)\<close>: a fresh zeroed array; a negative length panics.\<close>
  "make_float64s h n =
     (if n < 0 then Panicked ''makeslice: len out of range''
      else Returned (h @ [replicate (nat n) 0], length h))"

definition copy_float64s :: "heap \<Rightarrow> nat \<Rightarrow> nat \<Rightarrow> heap" where
  \<comment> \<open>\<open>copy(dst, src)\<close> copies \<open>min(len(dst), len(src))\<close> elements.\<close>
  "copy_float64s h dst src =
     (let k = min (length (h ! dst)) (length (h ! src))
      in h[dst := take k (h ! src) @ drop k (h ! dst)])"

definition sort_Float64s :: "heap \<Rightarrow> nat \<Rightarrow> heap" where
  \<comment> \<open>\<open>sort.Float64s(x)\<close> sorts the array in place, in increasing order.\<close>
  "sort_Float64s h x = h[x := sort (h ! x)]"

subsection \<open>The statistics engine\<close>

text \<open>
  \<open>computeStatistics\<close> is one Go function in four numbered steps and a return
  statement; each step is a definition here, in the order of the source.
\<close>

definition sum_pass :: "real list \<Rightarrow> real" where
  \<comment> \<open>step 1: \<open>for _, v := range data { sum += v }\<close>\<close>
  "sum_pass xs = fold (\<lambda>v s. s + v) xs 0"

definition variance_pass :: "real list \<Rightarrow> real \<Rightarrow> real" where
  \<comment> \<open>step 2: \<open>diff := v - mean; varianceSum += diff * diff\<close>\<close>
  "variance_pass xs mean = fold (\<lambda>v s. s + (v - mean) * (v - mean)) xs 0"

definition min_max_step :: "real \<Rightarrow> real \<times> real \<Rightarrow> real \<times> real" where
  "min_max_step v mm =
     (let mn = (if v < fst mm then v else fst mm);
          mx = (if v > snd mm then v else snd mm)
      in (mn, mx))"

definition min_max_pass :: "real list \<Rightarrow> (real \<times> real) exec" where
  \<comment> \<open>step 3: \<open>min, max := data[0], data[0]\<close>, then one pass\<close>
  "min_max_pass xs =
     bind_exec (index_at xs 0) (\<lambda>d0. Returned (fold min_max_step xs (d0, d0)))"

definition sorted_copy :: "heap \<Rightarrow> nat \<Rightarrow> int \<Rightarrow> (heap \<times> nat) exec" where
  \<comment> \<open>step 4: \<open>sortedData := make([]float64, n); copy(sortedData, data);
      sort.Float64s(sortedData)\<close>\<close>
  "sorted_copy h data n =
     bind_exec (make_float64s h n) (\<lambda>(h1, sortedData).
     Returned (sort_Float64s (copy_float64s h1 sortedData data) sortedData, sortedData))"

definition median_of :: "real list \<Rightarrow> int \<Rightarrow> real exec" where
  \<comment> \<open>\<open>median := sortedData[n/2]; if n%2 == 0 { median = (sortedData[n/2-1] + sortedData[n/2]) / 2 }\<close>\<close>
  "median_of sortedData n =
     bind_exec (index_at sortedData (n div 2)) (\<lambda>median.
     if n mod 2 = 0
     then bind_exec (index_at sortedData (n div 2 - 1)) (\<lambda>lo.
          bind_exec (index_at sortedData (n div 2)) (\<lambda>hi.
          Returned ((lo + hi) / 2)))
     else Returned median)"

definition stats_map ::
  "int \<Rightarrow> real \<Rightarrow> real \<Rightarrow> real \<Rightarrow> real \<Rightarrow> real \<Rightarrow> real \<Rightarrow> real
     \<Rightarrow> real \<Rightarrow> real \<Rightarrow> real \<Rightarrow> real \<Rightarrow> gmap" where
  \<comment> \<open>the map of the return statement\<close>
  "stats_map n sum_v mean stdDev variance mn mx median p25 p75 p95 p99 =
     [''count'' \<mapsto> VInt n,
      ''sum'' \<mapsto> VFloat64 sum_v,
      ''mean'' \<mapsto> VFloat64 mean,
      ''std_dev'' \<mapsto> VFloat64 stdDev,
      ''variance'' \<mapsto> VFloat64 variance,
      ''min'' \<mapsto> VFloat64 mn,
      ''max'' \<mapsto> VFloat64 mx,
      ''median'' \<mapsto> VFloat64 median,
      ''p25'' \<mapsto> VFloat64 p25,
      ''p75'' \<mapsto> VFloat64 p75,
      ''p95'' \<mapsto> VFloat64 p95,
      ''p99'' \<mapsto> VFloat64 p99,
      ''range'' \<mapsto> VFloat64 (mx - mn)]"

definition computeStatistics :: "heap \<Rightarrow> nat \<Rightarrow> (heap \<times> gmap) exec" where
  "computeStatistics h data =
     (let n = int (length (h ! data)) in
      if n = 0 then Returned (h, [''error'' \<mapsto> VString ''empty dataset''])
      else
        let sum_v = sum_pass (h ! data);
            mean = sum_v / real_of_int n;
            variance = variance_pass (h ! data) mean / real_of_int n;
            stdDev = sqrt variance
        in
        bind_exec (min_max_pass (h ! data)) (\<lambda>mm.
        bind_exec (sorted_copy h data n) (\<lambda>(h', sortedData).
        bind_exec (median_of (h' ! sortedData) n) (\<lambda>median.
        bind_exec (index_at (h' ! sortedData) (n div 4)) (\<lambda>p25.
        bind_exec (index_at (h' ! sortedData) (3 * n div 4)) (\<lambda>p75.
        bind_exec (index_at (h' ! sortedData) (95 * n div 100)) (\<lambda>p95.
        bind_exec (index_at (h' ! sortedData) (99 * n div 100)) (\<lambda>p99.
        Returned (h',
          stats_map n sum_v mean stdDev variance (fst mm) (snd mm)
            median p25 p75 p95 p99)))))))))"

subsection \<open>The environment\<close>

text \<open>A reading of \<open>time.Now()\<close>: the civil fields that \<open>Format\<close> prints and the Unix time in nanoseconds.\<close>

record gotime =
  year :: nat
  month :: nat
  day :: nat
  hour :: nat
  minute :: nat
  second :: nat
  unix_nano :: int

record env =
  clock :: "nat \<Rightarrow> gotime"
    \<comment> \<open>the k-th reading of \<open>time.Now()\<close> since the process started\<close>
  int_out_of_range :: "real \<Rightarrow> int"
    \<comment> \<open>what \<open>int(x)\<close> gives on this platform for an \<open>x\<close> outside the range of \<open>int\<close>\<close>
  bcrypt_generate :: "string \<Rightarrow> int \<Rightarrow> string + string"
    \<comment> \<open>\<open>bcrypt.GenerateFromPassword\<close>: an error (\<open>Inl\<close>) or the hash\<close>
  bcrypt_compare :: "string \<Rightarrow> string \<Rightarrow> string option"
    \<comment> \<open>\<open>bcrypt.CompareHashAndPassword\<close>: \<open>None\<close> is the nil error\<close>
  rand_int :: "nat \<Rightarrow> nat option"
    \<comment> \<open>\<open>rand.Int(rand.Reader, big.NewInt(1000))\<close> at the i-th draw; \<open>None\<close> is an error\<close>
  fallback_nano :: "nat \<Rightarrow> int"
    \<comment> \<open>\<open>time.Now().UnixNano()\<close> read by the fallback of the i-th draw\<close>

definition float64_to_int :: "env \<Rightarrow> real \<Rightarrow> int" where
  \<comment> \<open>\<open>int(x)\<close>: the fraction is discarded (truncation towards zero); outside the range of
      a 64-bit \<open>int\<close> the result is the platform's.\<close>
  "float64_to_int e x =
     (let t = (if 0 \<le> x then \<lfloor>x\<rfloor> else \<lceil>x\<rceil>)
      in if - (2 ^ 63) \<le> t \<and> t < 2 ^ 63 then t else int_out_of_range e x)"

subsection \<open>Jobs and their identifiers (internal/models/job.go)\<close>

record job =
  ID :: string
  Type :: string
  Payload :: "gmap option"
  CreatedAt :: gotime
  Status :: string

definition digits2 :: "nat \<Rightarrow> string" where
  "digits2 n = [''0123456789'' ! (n div 10 mod 10), ''0123456789'' ! (n mod 10)]"

definition format_20060102150405 :: "gotime \<Rightarrow> string" where
  \<comment> \<open>\<open>t.Format("20060102150405")\<close>: four digits of the year, then two digits each of
      month, day, hour, minute and second.\<close>
  "format_20060102150405 t =
     digits2 (year t div 100) @ digits2 (year t) @ digits2 (month t) @ digits2 (day t)
       @ digits2 (hour t) @ digits2 (minute t) @ digits2 (second t)"

definition letters :: string where
  "letters = ''abcdefghijklmnopqrstuvwxyz0123456789''"

text \<open>
  The loop of \<open>randString\<close>: position \<open>i\<close> reads the clock and takes
  \<open>letters[(UnixNano + i) % len(letters)]\<close>. Go's \<open>%\<close> takes the sign of the dividend
  (\<open>smod\<close>); a negative index panics. \<open>k\<close> counts the clock readings made so far.
\<close>

primrec randString_loop :: "env \<Rightarrow> nat \<Rightarrow> nat \<Rightarrow> nat \<Rightarrow> string exec" where
  "randString_loop e k i 0 = Returned []"
| "randString_loop e k i (Suc m) =
     (let idx = (unix_nano (clock e (k + i)) + int i) smod int (length letters)
      in if idx < 0 then Panicked ''index out of range''
         else bind_exec (randString_loop e k (Suc i) m) (\<lambda>cs.
              Returned (letters ! nat idx # cs)))"

definition randString :: "env \<Rightarrow> nat \<Rightarrow> nat \<Rightarrow> (string \<times> nat) exec" where
  "randString e k n = bind_exec (randString_loop e k 0 n) (\<lambda>b. Returned (b, k + n))"

definition generateJobID :: "env \<Rightarrow> nat \<Rightarrow> (string \<times> nat) exec" where
  "generateJobID e k =
     bind_exec (randString e (Suc k) 6) (\<lambda>(suffix, k').
     Returned (format_20060102150405 (clock e k) @ ''-'' @ suffix, k'))"

definition NewJob :: "env \<Rightarrow> nat \<Rightarrow> string \<Rightarrow> gmap option \<Rightarrow> (job \<times> nat) exec" where
  "NewJob e k jobType payload =
     bind_exec (generateJobID e k) (\<lambda>(jid, k').
     Returned (\<lparr>ID = jid, Type = jobType, Payload = payload,
                CreatedAt = clock e k', Status = ''pending''\<rparr>, Suc k'))"

subsection \<open>Admission (internal/handler/job_handler.go)\<close>

text \<open>
  The request as the handler sees it: the method, and what \<open>io.ReadAll\<close> and
  \<open>json.Unmarshal\<close> made of the body. A JSON body with no \<open>payload\<close> member (or with
  \<open>null\<close>) decodes to the nil map.
\<close>

record SubmitJobRequest =
  req_Type :: string
  req_Payload :: "gmap option"

datatype body = ReadError | InvalidJSON | Decoded SubmitJobRequest

record request =
  Method :: string
  Body :: body

datatype response = Error nat string | Json nat gmap

definition quoted :: "string \<Rightarrow> string" where
  \<comment> \<open>the text between two apostrophes\<close>
  "quoted s = CHR 0x27 # s @ [CHR 0x27]"

definition validate_payload :: "SubmitJobRequest \<Rightarrow> (string + gmap option) exec" where
  \<comment> \<open>the per-type validation; \<open>Inl\<close> is the text of the 400 response, \<open>Inr\<close> the
      payload as the handler left it\<close>
  "validate_payload req =
     (if req_Type req = ''password_hash''
      then (if map_get (req_Payload req) ''password'' = None
            then Returned (Inl (''Missing '' @ quoted ''password'' @ '' field in payload''))
            else Returned (Inr (req_Payload req)))
      else if req_Type req = ''report_generation''
      then (if map_get (req_Payload req) ''data_points'' = None
            then bind_exec (map_set (req_Payload req) ''data_points'' (VInt 1000000)) (\<lambda>p.
                 Returned (Inr p))
            else Returned (Inr (req_Payload req)))
      else Returned (Inr (req_Payload req)))"

text \<open>
  The state of the unbuffered channel \<open>jobQueue\<close> when the handler's \<open>select\<close> runs.
  The send goes through when the worker is waiting to receive; with no receiver the
  \<open>default\<close> branch is taken; on a closed channel the send panics, \<open>default\<close> or not
  (\<open>main\<close> closes the channel at shutdown and the server goes on serving for two
  seconds). A panic of the handler is recovered by the HTTP server: the request gets
  no response.
\<close>

datatype queue_state = ReceiverWaiting | NoReceiver | QueueClosed

definition HandleSubmitJob ::
  "env \<Rightarrow> nat \<Rightarrow> queue_state \<Rightarrow> request \<Rightarrow> (response \<times> job option) exec" where
  \<comment> \<open>The second component is the job handed to the worker.\<close>
  "HandleSubmitJob e k queue r =
     (if Method r \<noteq> ''POST'' then Returned (Error 405 ''Method not allowed'', None)
      else case Body r of
        ReadError \<Rightarrow> Returned (Error 400 ''Failed to read request'', None)
      | InvalidJSON \<Rightarrow> Returned (Error 400 ''Invalid JSON'', None)
      | Decoded req \<Rightarrow>
          if req_Type req \<noteq> ''password_hash'' \<and> req_Type req \<noteq> ''report_generation''
          then Returned
                 (Error 400 (''Invalid job type. Use '' @ quoted ''password_hash'' @ '' or ''
                               @ quoted ''report_generation''), None)
          else
            bind_exec (validate_payload req) (\<lambda>v.
            case v of
              Inl msg \<Rightarrow> Returned (Error 400 msg, None)
            | Inr payload \<Rightarrow>
                bind_exec (NewJob e k (req_Type req) payload) (\<lambda>(j, k').
                case queue of
                  QueueClosed \<Rightarrow> Panicked ''send on closed channel''
                | NoReceiver \<Rightarrow>
                    Returned (Error 503 ''System overloaded, try again later'', None)
                | ReceiverWaiting \<Rightarrow> Returned
                  (Json 202
                     [''status'' \<mapsto> VString ''accepted'',
                      ''job_id'' \<mapsto> VString (ID j),
                      ''message'' \<mapsto>
                         VString (''Job '' @ ID j @ '' queued for CPU-intensive processing''),
                      ''note'' \<mapsto> VString
                         ''Job will be processed asynchronously. Use job_id to track status (future phases).''],
                   Some j))))"

subsection \<open>Task executors and the worker loop (package worker)\<close>

definition DefaultCost :: int where
  \<comment> \<open>\<open>bcrypt.DefaultCost\<close>\<close>
  "DefaultCost = 10"

definition hash_cost :: "env \<Rightarrow> gmap option \<Rightarrow> int" where
  \<comment> \<open>the cost that \<open>processPasswordHash\<close> passes to bcrypt\<close>
  "hash_cost e payload =
     (case map_get payload ''cost'' of
        Some (VFloat64 costVal) \<Rightarrow>
          (let cost = float64_to_int e costVal
           in if cost < 4 \<or> cost > 31 then DefaultCost else cost)
      | _ \<Rightarrow> DefaultCost)"

definition processPasswordHash :: "env \<Rightarrow> job \<Rightarrow> string + gmap" where
  \<comment> \<open>\<open>Inl\<close> is the returned error, \<open>Inr\<close> the result\<close>
  "processPasswordHash e j =
     (case map_get (Payload j) ''password'' of
        Some (VString password) \<Rightarrow>
          (let cost = hash_cost e (Payload j) in
           case bcrypt_generate e password cost of
             Inl err \<Rightarrow> Inl (''bcrypt hashing failed: '' @ err)
           | Inr hashedPassword \<Rightarrow>
               (case bcrypt_compare e hashedPassword password of
                  Some err \<Rightarrow> Inl (''hash verification failed: '' @ err)
                | None \<Rightarrow>
                    Inr [''hash_length'' \<mapsto> VInt (int (length hashedPassword)),
                         ''cost'' \<mapsto> VInt cost,
                         ''algorithm'' \<mapsto> VString ''bcrypt'',
                         ''verified'' \<mapsto> VBool True]))
      | _ \<Rightarrow> Inl ''invalid password field'')"

definition data_points :: "env \<Rightarrow> gmap option \<Rightarrow> int" where
  \<comment> \<open>the count that \<open>processReportGeneration\<close> generates\<close>
  "data_points e payload =
     (let dataPoints =
            (case map_get payload ''data_points'' of
               Some (VFloat64 dpVal) \<Rightarrow> float64_to_int e dpVal
             | _ \<Rightarrow> 1000000)
      in if dataPoints > 10000000 then 10000000 else dataPoints)"

definition draw :: "env \<Rightarrow> nat \<Rightarrow> real" where
  \<comment> \<open>the body of the generating loop at index \<open>i\<close>\<close>
  "draw e i =
     (case rand_int e i of
        None \<Rightarrow> real_of_int (fallback_nano e i smod 1000)
      | Some val \<Rightarrow> real val)"

definition processReportGeneration :: "env \<Rightarrow> job \<Rightarrow> (string + gmap) exec" where
  "processReportGeneration e j =
     (let dataPoints = data_points e (Payload j) in
      bind_exec (make_float64s [] dataPoints) (\<lambda>(h, dataset).
      let h' = h[dataset := map (draw e) [0..<nat dataPoints]] in
      bind_exec (computeStatistics h' dataset) (\<lambda>(h'', stats).
      Returned (Inr stats))))"

datatype logrec =
    LogProcessing string string
  | LogFailed string string
  | LogCompleted string
  | LogResult string gmap

definition processJob :: "env \<Rightarrow> job \<Rightarrow> (job \<times> logrec list) exec" where
  \<comment> \<open>the job with its final status and the records logged (durations left out)\<close>
  "processJob e j =
     (let j1 = j\<lparr>Status := ''processing''\<rparr> in
      bind_exec
        (if Type j1 = ''password_hash'' then Returned (processPasswordHash e j1)
         else if Type j1 = ''report_generation'' then processReportGeneration e j1
         else Returned (Inl (''unknown job type: '' @ Type j1))) (\<lambda>r.
      case r of
        Inl err \<Rightarrow>
          Returned (j1\<lparr>Status := ''failed''\<rparr>,
                    [LogProcessing (ID j) (Type j), LogFailed (ID j) err])
      | Inr result \<Rightarrow>
          Returned (j1\<lparr>Status := ''completed''\<rparr>,
                    [LogProcessing (ID j) (Type j), LogCompleted (ID j),
                     LogResult (ID j) result])))"

text \<open>
  \<open>Start\<close> ranges over the channel: the argument is the sequence of jobs received
  until the channel is closed. The worker runs in a goroutine of its own with no
  \<open>recover\<close>, so a panic in \<open>processJob\<close> ends the loop (and the process).
\<close>

fun Start :: "env \<Rightarrow> job list \<Rightarrow> (job list \<times> logrec list) exec" where
  "Start e [] = Returned ([], [])"
| "Start e (j # js) =
     bind_exec (processJob e j) (\<lambda>(j', l).
     bind_exec (Start e js) (\<lambda>(js', ls).
     Returned (j' # js', l @ ls)))"

subsection \<open>Observations on outcomes\<close>

definition result_of :: "(heap \<times> gmap) exec \<Rightarrow> gmap exec" where
  \<comment> \<open>the map \<open>computeStatistics\<close> returns, without the heap\<close>
  "result_of m = bind_exec m (\<lambda>(h, r). Returned r)"

definition field :: "(heap \<times> gmap) exec \<Rightarrow> string \<Rightarrow> gval option" where
  \<comment> \<open>one entry of the returned map\<close>
  "field m k = (case m of Returned (h, r) \<Rightarrow> r k | Panicked e \<Rightarrow> None)"

definition status_code :: "(response \<times> job option) exec \<Rightarrow> nat option" where
  \<comment> \<open>the HTTP status the handler answered with; \<open>None\<close> when it panicked\<close>
  "status_code m =
     (case m of
        Returned (Error c msg, j) \<Rightarrow> Some c
      | Returned (Json c b, j) \<Rightarrow> Some c
      | Panicked e \<Rightarrow> None)"

definition enqueued :: "(response \<times> job option) exec \<Rightarrow> job option" where
  \<comment> \<open>the job handed to the worker, if any\<close>
  "enqueued m = (case m of Returned (resp, j) \<Rightarrow> j | Panicked e \<Rightarrow> None)"

definition final_status :: "(job \<times> logrec list) exec \<Rightarrow> string option" where
  \<comment> \<open>the status \<open>processJob\<close> leaves on the job; \<open>None\<close> when it panicked\<close>
  "final_status m = (case m of Returned (j, l) \<Rightarrow> Some (Status j) | Panicked e \<Rightarrow> None)"

definition statuses :: "(job list \<times> logrec list) exec \<Rightarrow> string list option" where
  \<comment> \<open>the final statuses of the jobs the worker processed; \<open>None\<close> when it panicked\<close>
  "statuses m = (case m of Returned (js, l) \<Rightarrow> Some (map Status js) | Panicked e \<Rightarrow> None)"

definition new_id :: "(job \<times> nat) exec \<Rightarrow> string option" where
  \<comment> \<open>the identifier of the job \<open>NewJob\<close> built\<close>
  "new_id m = (case m of Returned (j, k) \<Rightarrow> Some (ID j) | Panicked e \<Rightarrow> None)"

subsection \<open>Sample inputs\<close>

text \<open>
  An environment for concrete runs: the clock advances 45 ns from one reading to the
  next, starting on 2024-01-15 at 10:30:00; the stand-in for bcrypt returns 60 bytes,
  the length of every bcrypt hash, and verifies.
\<close>

definition sample_env :: env where
  "sample_env =
     \<lparr>clock = (\<lambda>k. \<lparr>year = 2024, month = 1, day = 15, hour = 10, minute = 30, second = 0,
                      unix_nano = 1705314600000000000 + 45 * int k\<rparr>),
      int_out_of_range = (\<lambda>x. - (2 ^ 63)),
      bcrypt_generate = (\<lambda>p c. Inr (replicate 60 (CHR ''x''))),
      bcrypt_compare = (\<lambda>h p. None),
      rand_int = (\<lambda>i. Some (i mod 1000)),
      fallback_nano = (\<lambda>i. 0)\<rparr>"

definition post :: "string \<Rightarrow> gmap option \<Rightarrow> request" where
  \<comment> \<open>a POST whose body decoded to the given type and payload\<close>
  "post t p = \<lparr>Method = ''POST'', Body = Decoded \<lparr>req_Type = t, req_Payload = p\<rparr>\<rparr>"

definition sample_job :: "string \<Rightarrow> gmap option \<Rightarrow> job" where
  "sample_job t p =
     \<lparr>ID = ''20240115103000-jt3dnx'', Type = t, Payload = p,
      CreatedAt = clock sample_env 0, Status = ''pending''\<rparr>"

section \<open>Properties of the statistics engine\<close>

lemma index_at_in:
  "0 \<le> i \<Longrightarrow> i < int (length xs) \<Longrightarrow> index_at xs i = Returned (xs ! nat i)"
  by (simp add: index_at_def)

lemma sorted_copy_heap:
  assumes "data < length h"
  shows "sorted_copy h data (int (length (h ! data)))
           = Returned (h @ [sort (h ! data)], length h)"
  using assms
  by (simp add: sorted_copy_def make_float64s_def bind_exec_def sort_Float64s_def
      copy_float64s_def nth_append)

lemma median_of_sorted:
  assumes "xs \<noteq> []"
  shows "median_of (sort xs) (int (length xs)) =
     Returned (if int (length xs) mod 2 = 0
               then (sort xs ! nat (int (length xs) div 2 - 1)
                       + sort xs ! nat (int (length xs) div 2)) / 2
               else sort xs ! nat (int (length xs) div 2))"
proof -
  let ?n = "int (length xs)"
  have n: "0 < ?n" using assms by simp
  have b: "?n div 2 < ?n" using n by linarith
  have i1: "index_at (sort xs) (?n div 2) = Returned (sort xs ! nat (?n div 2))"
    using n b by (simp add: index_at_def)
  have i2: "?n mod 2 = 0 \<Longrightarrow>
      index_at (sort xs) (?n div 2 - 1) = Returned (sort xs ! nat (?n div 2 - 1))"
    using n b by (simp add: index_at_def) presburger
  show ?thesis unfolding median_of_def using i1 i2 by (simp add: bind_exec_def)
qed

lemma computeStatistics_empty:
  "h ! data = [] \<Longrightarrow>
     computeStatistics h data = Returned (h, [''error'' \<mapsto> VString ''empty dataset''])"
  by (simp add: computeStatistics_def)

lemma computeStatistics_nonempty:
  assumes "data < length h" and "h ! data \<noteq> []"
  shows "computeStatistics h data =
    (let xs = h ! data; n = int (length xs); s = sort xs;
         mean = sum_pass xs / real_of_int n;
         variance = variance_pass xs mean / real_of_int n;
         mm = fold min_max_step xs (xs ! 0, xs ! 0)
     in Returned (h @ [s],
          stats_map n (sum_pass xs) mean (sqrt variance) variance (fst mm) (snd mm)
            (if n mod 2 = 0 then (s ! nat (n div 2 - 1) + s ! nat (n div 2)) / 2
             else s ! nat (n div 2))
            (s ! nat (n div 4)) (s ! nat (3 * n div 4))
            (s ! nat (95 * n div 100)) (s ! nat (99 * n div 100))))"
proof -
  let ?xs = "h ! data"
  let ?n = "int (length ?xs)"
  let ?s = "sort ?xs"
  have n: "0 < ?n" using assms(2) by simp
  have b: "?n div 4 < ?n" "3 * ?n div 4 < ?n" "95 * ?n div 100 < ?n" "99 * ?n div 100 < ?n"
    using n by linarith+
  have mm: "min_max_pass ?xs = Returned (fold min_max_step ?xs (?xs ! 0, ?xs ! 0))"
    using n by (simp add: min_max_pass_def index_at_def bind_exec_def)
  have sc: "sorted_copy h data ?n = Returned (h @ [?s], length h)"
    using assms(1) by (rule sorted_copy_heap)
  have md: "median_of ?s ?n =
      Returned (if ?n mod 2 = 0 then (?s ! nat (?n div 2 - 1) + ?s ! nat (?n div 2)) / 2
                else ?s ! nat (?n div 2))"
    using median_of_sorted[OF assms(2)] .
  have p: "index_at ?s (?n div 4) = Returned (?s ! nat (?n div 4))"
          "index_at ?s (3 * ?n div 4) = Returned (?s ! nat (3 * ?n div 4))"
          "index_at ?s (95 * ?n div 100) = Returned (?s ! nat (95 * ?n div 100))"
          "index_at ?s (99 * ?n div 100) = Returned (?s ! nat (99 * ?n div 100))"
    using n b by (simp_all add: index_at_def)
  have ne: "?n \<noteq> 0" using n by simp
  show ?thesis
    unfolding computeStatistics_def Let_def
    by (simp only: ne if_False mm sc md p bind_exec_def exec.case prod.case nth_append_length)
qed

text \<open>The same, for a dataset \<open>xs\<close> stored anywhere in a heap.\<close>

lemma computeStatistics_at:
  assumes "xs \<noteq> []"
  shows "computeStatistics (h1 @ xs # h2) (length h1) =
    (let n = int (length xs); s = sort xs;
         mean = sum_pass xs / real_of_int n;
         variance = variance_pass xs mean / real_of_int n;
         mm = fold min_max_step xs (xs ! 0, xs ! 0)
     in Returned (h1 @ xs # h2 @ [s],
          stats_map n (sum_pass xs) mean (sqrt variance) variance (fst mm) (snd mm)
            (if n mod 2 = 0 then (s ! nat (n div 2 - 1) + s ! nat (n div 2)) / 2
             else s ! nat (n div 2))
            (s ! nat (n div 4)) (s ! nat (3 * n div 4))
            (s ! nat (95 * n div 100)) (s ! nat (99 * n div 100))))"
proof -
  have a: "length h1 < length (h1 @ xs # h2)" by simp
  have b: "(h1 @ xs # h2) ! length h1 = xs" by simp
  show ?thesis
    using computeStatistics_nonempty[OF a] assms unfolding b by simp
qed

lemma stats_map_fields:
  "stats_map n sm mean sd var mn mx med p25 p75 p95 p99 ''mean'' = Some (VFloat64 mean)"
  "stats_map n sm mean sd var mn mx med p25 p75 p95 p99 ''min'' = Some (VFloat64 mn)"
  "stats_map n sm mean sd var mn mx med p25 p75 p95 p99 ''max'' = Some (VFloat64 mx)"
  "stats_map n sm mean sd var mn mx med p25 p75 p95 p99 ''median'' = Some (VFloat64 med)"
  "stats_map n sm mean sd var mn mx med p25 p75 p95 p99 ''p25'' = Some (VFloat64 p25)"
  "stats_map n sm mean sd var mn mx med p25 p75 p95 p99 ''p75'' = Some (VFloat64 p75)"
  "stats_map n sm mean sd var mn mx med p25 p75 p95 p99 ''p95'' = Some (VFloat64 p95)"
  "stats_map n sm mean sd var mn mx med p25 p75 p95 p99 ''p99'' = Some (VFloat64 p99)"
  "stats_map n sm mean sd var mn mx med p25 p75 p95 p99 ''range'' = Some (VFloat64 (mx - mn))"
  by (simp_all add: stats_map_def)

lemma sort_1_to_100: "sort (map real [1..<101]) = map real [1..<101]"
proof -
  have "sorted (map real [1..<101])"
    by (simp add: sorted_iff_nth_mono del: upt_Suc)
  then show ?thesis by (rule sort_key_id_if_sorted[where f = "\<lambda>x. x", simplified])
qed

text \<open>
  Claim C5, as amended. For a non-empty dataset of \<open>n\<close> values the percentiles p25, p75,
  p95 and p99 are the elements of the sorted copy at index \<open>floor(p * n / 100)\<close>, with
  no interpolation, and so is the median when \<open>n\<close> is odd (\<open>p = 50\<close>); when \<open>n\<close> is
  even the median is the mean of the two middle elements of the sorted copy. For the
  dataset 1..100, p25 is the element at index 25, which is 26.
\<close>

theorem percentiles_by_rank_index:
  "(let n = length (x # xs); s = sort (x # xs);
        r = field (computeStatistics (h1 @ (x # xs) # h2) (length h1))
    in r ''p25'' = Some (VFloat64 (s ! (25 * n div 100)))
     \<and> r ''p75'' = Some (VFloat64 (s ! (75 * n div 100)))
     \<and> r ''p95'' = Some (VFloat64 (s ! (95 * n div 100)))
     \<and> r ''p99'' = Some (VFloat64 (s ! (99 * n div 100)))
     \<and> r ''median'' = Some (VFloat64
          (if odd n then s ! (50 * n div 100)
           else (s ! (n div 2 - 1) + s ! (n div 2)) / 2)))
   \<and> sort (map real [1..<101]) ! 25 = 26
   \<and> field (computeStatistics (h1 @ map real [1..<101] # h2) (length h1)) ''p25''
        = Some (VFloat64 26)"
proof -
  let ?ys = "x # xs"
  let ?n = "length ?ys"
  let ?s = "sort ?ys"
  have ne: "?ys \<noteq> []" by simp
  have i: "nat (int ?n div 4) = 25 * ?n div 100"
          "nat (3 * int ?n div 4) = 75 * ?n div 100"
          "nat (95 * int ?n div 100) = 95 * ?n div 100"
          "nat (99 * int ?n div 100) = 99 * ?n div 100"
          "nat (int ?n div 2) = ?n div 2"
          "nat (int ?n div 2 - 1) = ?n div 2 - 1"
          "50 * ?n div 100 = ?n div 2"
    by linarith+
  have par: "(int ?n mod 2 = 0) = even ?n"
    by presburger
  have gen: "(let n = length (x # xs); s = sort (x # xs);
        r = field (computeStatistics (h1 @ (x # xs) # h2) (length h1))
    in r ''p25'' = Some (VFloat64 (s ! (25 * n div 100)))
     \<and> r ''p75'' = Some (VFloat64 (s ! (75 * n div 100)))
     \<and> r ''p95'' = Some (VFloat64 (s ! (95 * n div 100)))
     \<and> r ''p99'' = Some (VFloat64 (s ! (99 * n div 100)))
     \<and> r ''median'' = Some (VFloat64
          (if odd n then s ! (50 * n div 100)
           else (s ! (n div 2 - 1) + s ! (n div 2)) / 2)))"
    unfolding Let_def computeStatistics_at[OF ne, unfolded Let_def] field_def
    by (simp only: exec.case prod.case stats_map_fields i par) simp
  have s25: "sort (map real [1..<101]) ! 25 = 26"
    unfolding sort_1_to_100 by simp
  have ne100: "map real [1..<101] \<noteq> []" by simp
  have ex: "field (computeStatistics (h1 @ map real [1..<101] # h2) (length h1)) ''p25''
        = Some (VFloat64 26)"
    unfolding computeStatistics_at[OF ne100, unfolded Let_def] field_def
    by (simp only: exec.case prod.case stats_map_fields sort_1_to_100) simp
  show ?thesis using gen s25 ex by blast
qed

text \<open>
  Claim C5 as stated fails for the median of a dataset of even length: on \<open>[1, 2]\<close>
  the median is 3/2, while the element of the sorted copy at index
  \<open>floor(50 * 2 / 100) = 1\<close> is 2.
\<close>

theorem median_even_not_rank_selected:
  "field (computeStatistics [[1, 2]] 0) ''median'' = Some (VFloat64 (3 / 2))
   \<and> sort [1, 2 :: real] ! (50 * 2 div 100) = 2
   \<and> field (computeStatistics [[1, 2]] 0) ''median''
        \<noteq> Some (VFloat64 (sort [1, 2] ! (50 * 2 div 100)))"
proof -
  have ne: "[1, 2 :: real] \<noteq> []" by simp
  have "field (computeStatistics ([] @ [1, 2] # []) (length ([] :: heap))) ''median''
          = Some (VFloat64 (3 / 2))"
    unfolding computeStatistics_at[OF ne, unfolded Let_def] field_def
    by (simp only: exec.case prod.case stats_map_fields) simp
  then show ?thesis by simp
qed

text \<open>
  Claim C6. On \<open>[1, 2, 3, 4, 5]\<close> the engine returns mean 3, min 1, max 5, median 3
  and range 4. The median of a non-empty dataset is the mean of the two middle values
  of the sorted copy when the length is even and the value at index \<open>n div 2\<close> when it
  is odd. On the empty dataset the result is the map with the single entry
  \<open>error\<close>. The result depends on the sequence of values only, not on where the
  dataset is stored.
\<close>

theorem computeStatistics_reference_values:
  "field (computeStatistics (h1 @ [1, 2, 3, 4, 5] # h2) (length h1)) ''mean'' = Some (VFloat64 3)
   \<and> field (computeStatistics (h1 @ [1, 2, 3, 4, 5] # h2) (length h1)) ''min'' = Some (VFloat64 1)
   \<and> field (computeStatistics (h1 @ [1, 2, 3, 4, 5] # h2) (length h1)) ''max'' = Some (VFloat64 5)
   \<and> field (computeStatistics (h1 @ [1, 2, 3, 4, 5] # h2) (length h1)) ''median'' = Some (VFloat64 3)
   \<and> field (computeStatistics (h1 @ [1, 2, 3, 4, 5] # h2) (length h1)) ''range'' = Some (VFloat64 4)
   \<and> field (computeStatistics (h1 @ (x # xs) # h2) (length h1)) ''median'' =
       Some (VFloat64 (let s = sort (x # xs); n = length (x # xs)
                       in if even n then (s ! (n div 2 - 1) + s ! (n div 2)) / 2
                          else s ! (n div 2)))
   \<and> computeStatistics (h1 @ [] # h2) (length h1)
        = Returned (h1 @ [] # h2, [''error'' \<mapsto> VString ''empty dataset''])
   \<and> result_of (computeStatistics (h1 @ ys # h2) (length h1))
        = result_of (computeStatistics (g1 @ ys # g2) (length g1))"
proof -
  let ?d = "[1, 2, 3, 4, 5 :: real]"
  have ne: "?d \<noteq> []" by simp
  have srt: "sort ?d = ?d" by simp
  have sm: "sum_pass ?d = 15" by (simp add: sum_pass_def)
  have mm: "fold min_max_step ?d (?d ! 0, ?d ! 0) = (1, 5)"
    by (simp add: min_max_step_def)
  have c: "field (computeStatistics (h1 @ ?d # h2) (length h1)) ''mean'' = Some (VFloat64 3)"
     "field (computeStatistics (h1 @ ?d # h2) (length h1)) ''min'' = Some (VFloat64 1)"
     "field (computeStatistics (h1 @ ?d # h2) (length h1)) ''max'' = Some (VFloat64 5)"
     "field (computeStatistics (h1 @ ?d # h2) (length h1)) ''median'' = Some (VFloat64 3)"
     "field (computeStatistics (h1 @ ?d # h2) (length h1)) ''range'' = Some (VFloat64 4)"
    unfolding computeStatistics_at[OF ne, unfolded Let_def] field_def
    by (simp_all only: exec.case prod.case stats_map_fields srt sm mm fst_conv snd_conv) simp_all
  have ne2: "x # xs \<noteq> []" by simp
  have i: "nat (int (length (x # xs)) div 2) = length (x # xs) div 2"
          "nat (int (length (x # xs)) div 2 - 1) = length (x # xs) div 2 - 1"
    by linarith+
  have par: "(int (length (x # xs)) mod 2 = 0) = even (length (x # xs))"
    by presburger
  have m: "field (computeStatistics (h1 @ (x # xs) # h2) (length h1)) ''median'' =
       Some (VFloat64 (let s = sort (x # xs); n = length (x # xs)
                       in if even n then (s ! (n div 2 - 1) + s ! (n div 2)) / 2
                          else s ! (n div 2)))"
    unfolding Let_def computeStatistics_at[OF ne2, unfolded Let_def] field_def
    by (simp only: exec.case prod.case stats_map_fields i par)
  have e: "computeStatistics (h1 @ [] # h2) (length h1)
        = Returned (h1 @ [] # h2, [''error'' \<mapsto> VString ''empty dataset''])"
    by (rule computeStatistics_empty) simp
  have d: "result_of (computeStatistics (h1 @ ys # h2) (length h1))
        = result_of (computeStatistics (g1 @ ys # g2) (length g1))"
  proof (cases "ys = []")
    case True
    then show ?thesis
      by (simp add: computeStatistics_empty result_of_def bind_exec_def)
  next
    case False
    show ?thesis
      unfolding computeStatistics_at[OF False, unfolded Let_def] result_of_def bind_exec_def
      by simp
  qed
  show ?thesis using c m e d by blast
qed

text \<open>
  Claim C8. \<open>computeStatistics\<close> returns on every dataset and leaves the caller's array
  as it was, element for element and in the same order; so is every other array
  allocated before the call. For a non-empty dataset the only change to the heap is
  the new array holding the sorted copy.
\<close>

theorem computeStatistics_preserves_input:
  assumes "data < length h"
  shows "\<exists>h' r. computeStatistics h data = Returned (h', r)
           \<and> h' ! data = h ! data
           \<and> take (length h) h' = h
           \<and> (h ! data \<noteq> [] \<longrightarrow> h' = h @ [sort (h ! data)])"
proof (cases "h ! data = []")
  case True
  then show ?thesis by (simp add: computeStatistics_empty)
next
  case False
  show ?thesis
    using assms False
    by (simp add: computeStatistics_nonempty[OF assms False, unfolded Let_def] nth_append)
qed

theorem computeStatistics_preserves_input_witness:
  "\<exists>h' r. computeStatistics [[3, 1, 2]] 0 = Returned (h', r)
           \<and> h' ! 0 = [3, 1, 2]
           \<and> take 1 h' = [[3, 1, 2]]
           \<and> h' = [[3, 1, 2], [1, 2, 3]]"
  using computeStatistics_preserves_input[of 0 "[[3, 1, 2]]"] by simp

text \<open>
  Claim C10. For a non-empty dataset of \<open>n\<close> values the indices \<open>n/2\<close>, \<open>n/4\<close>,
  \<open>3*n/4\<close>, \<open>95*n/100\<close> and \<open>99*n/100\<close> lie in \<open>[0, n)\<close>, and so does \<open>n/2 - 1\<close> when
  \<open>n\<close> is even; every read of the sorted copy passes its bounds check, and
  \<open>computeStatistics\<close> returns.
\<close>

theorem computeStatistics_indices_in_bounds:
  assumes "xs \<noteq> []"
  shows "(let n = int (length xs); s = sort xs in
     0 \<le> n div 2 \<and> n div 2 < n \<and> 0 \<le> n div 4 \<and> n div 4 < n
     \<and> 0 \<le> 3 * n div 4 \<and> 3 * n div 4 < n
     \<and> 0 \<le> 95 * n div 100 \<and> 95 * n div 100 < n
     \<and> 0 \<le> 99 * n div 100 \<and> 99 * n div 100 < n
     \<and> (n mod 2 = 0 \<longrightarrow> 0 \<le> n div 2 - 1 \<and> n div 2 - 1 < n)
     \<and> (\<exists>m. median_of s n = Returned m)
     \<and> index_at s (n div 4) = Returned (s ! nat (n div 4))
     \<and> index_at s (3 * n div 4) = Returned (s ! nat (3 * n div 4))
     \<and> index_at s (95 * n div 100) = Returned (s ! nat (95 * n div 100))
     \<and> index_at s (99 * n div 100) = Returned (s ! nat (99 * n div 100))
     \<and> (\<exists>r. computeStatistics (h1 @ xs # h2) (length h1) = Returned (h1 @ xs # h2 @ [s], r)))"
proof -
  let ?n = "int (length xs)"
  have n: "0 < ?n" using assms by simp
  have b: "0 \<le> ?n div 2" "?n div 2 < ?n" "0 \<le> ?n div 4" "?n div 4 < ?n"
     "0 \<le> 3 * ?n div 4" "3 * ?n div 4 < ?n"
     "0 \<le> 95 * ?n div 100" "95 * ?n div 100 < ?n"
     "0 \<le> 99 * ?n div 100" "99 * ?n div 100 < ?n"
    using n by linarith+
  have e: "?n mod 2 = 0 \<longrightarrow> 0 \<le> ?n div 2 - 1 \<and> ?n div 2 - 1 < ?n"
    using n by presburger
  have ix: "index_at (sort xs) (?n div 4) = Returned (sort xs ! nat (?n div 4))"
     "index_at (sort xs) (3 * ?n div 4) = Returned (sort xs ! nat (3 * ?n div 4))"
     "index_at (sort xs) (95 * ?n div 100) = Returned (sort xs ! nat (95 * ?n div 100))"
     "index_at (sort xs) (99 * ?n div 100) = Returned (sort xs ! nat (99 * ?n div 100))"
    using b by (simp_all add: index_at_def)
  have md: "\<exists>m. median_of (sort xs) ?n = Returned m"
    using median_of_sorted[OF assms] by blast
  have cs: "\<exists>r. computeStatistics (h1 @ xs # h2) (length h1)
               = Returned (h1 @ xs # h2 @ [sort xs], r)"
    unfolding computeStatistics_at[OF assms, unfolded Let_def] by blast
  show ?thesis unfolding Let_def using b e ix md cs by blast
qed

theorem computeStatistics_indices_in_bounds_witness:
  "[2, 1 :: real] \<noteq> [] \<and> (2 :: int) mod 2 = 0 \<and> (0 :: int) \<le> 2 div 2 - 1
   \<and> index_at (sort [2, 1]) (99 * 2 div 100) = Returned 2
   \<and> (\<exists>r. computeStatistics [[2, 1]] 0 = Returned ([[2, 1], [1, 2]], r))"
  using computeStatistics_indices_in_bounds[of "[2, 1]" "[]" "[]"] by (simp add: Let_def)


theorem percentiles_by_rank_index_witness:
  "field (computeStatistics [[4, 1, 3, 2]] 0) ''p25'' = Some (VFloat64 2)
   \<and> field (computeStatistics [[4, 1, 3, 2]] 0) ''p75'' = Some (VFloat64 4)
   \<and> field (computeStatistics [[4, 1, 3, 2]] 0) ''median'' = Some (VFloat64 (5 / 2))"
  using percentiles_by_rank_index[of 4 "[1, 3, 2]" "[]" "[]"] by (simp add: Let_def)

theorem computeStatistics_reference_values_witness:
  "field (computeStatistics [[4, 1, 3, 2]] 0) ''median'' = Some (VFloat64 (5 / 2))
   \<and> computeStatistics [[]] 0 = Returned ([[]], [''error'' \<mapsto> VString ''empty dataset''])"
  using computeStatistics_reference_values[of "[]" "[]" 4 "[1, 3, 2]"] by (simp add: Let_def)

section \<open>Properties of job construction, admission and the worker\<close>

lemma randString_loop_returns:
  assumes "\<forall>i. 0 \<le> unix_nano (clock e i)"
  shows "\<exists>cs. randString_loop e k i m = Returned cs"
proof (induction m arbitrary: i)
  case 0
  show ?case by simp
next
  case (Suc m)
  have "0 \<le> unix_nano (clock e (k + i)) + int i" using assms by simp
  then have "0 \<le> (unix_nano (clock e (k + i)) + int i) smod int (length letters)"
    by (rule smod_int_compares(2)) (simp add: letters_def)
  moreover obtain cs where "randString_loop e k (Suc i) m = Returned cs"
    using Suc.IH by blast
  ultimately show ?case by (simp add: Let_def bind_exec_def)
qed

lemma NewJob_returns:
  assumes "\<forall>i. 0 \<le> unix_nano (clock e i)"
  shows "\<exists>jid. NewJob e k t p =
           Returned (\<lparr>ID = jid, Type = t, Payload = p, CreatedAt = clock e (k + 7),
                      Status = ''pending''\<rparr>, k + 8)"
proof -
  obtain cs where "randString_loop e (Suc k) 0 6 = Returned cs"
    using randString_loop_returns[OF assms] by blast
  then show ?thesis
    by (simp add: NewJob_def generateJobID_def randString_def bind_exec_def add.commute)
qed

lemma data_points_le_cap: "data_points e p \<le> 10000000"
  by (simp add: data_points_def Let_def)

lemma data_points_absent:
  "map_get p ''data_points'' = None \<Longrightarrow> data_points e p = 1000000"
  by (simp add: data_points_def)

lemma data_points_admission_default:
  "data_points e (Some (m(''data_points'' \<mapsto> VInt 1000000))) = 1000000"
  by (simp add: data_points_def map_get_def)

lemma computeStatistics_returns:
  assumes "data < length h"
  shows "\<exists>h' r. computeStatistics h data = Returned (h', r)"
proof (cases "h ! data = []")
  case True
  then show ?thesis by (simp add: computeStatistics_empty)
next
  case False
  show ?thesis
    unfolding computeStatistics_nonempty[OF assms False, unfolded Let_def] by blast
qed

lemma processReportGeneration_negative:
  "data_points e (Payload j) < 0 \<Longrightarrow>
     processReportGeneration e j = Panicked ''makeslice: len out of range''"
  by (simp add: processReportGeneration_def make_float64s_def bind_exec_def)

lemma processReportGeneration_returns:
  assumes "0 \<le> data_points e (Payload j)"
  shows "\<exists>stats. processReportGeneration e j = Returned (Inr stats)"
proof -
  let ?h = "[replicate (nat (data_points e (Payload j))) 0][0 :=
              map (draw e) [0..<nat (data_points e (Payload j))]]"
  have "0 < length ?h" by simp
  then obtain h' r where "computeStatistics ?h 0 = Returned (h', r)"
    using computeStatistics_returns by blast
  then show ?thesis using assms
    by (simp add: processReportGeneration_def make_float64s_def bind_exec_def Let_def)
qed

lemma processJob_panics_iff:
  "(\<exists>m. processJob e j = Panicked m) \<longleftrightarrow>
     Type j = ''report_generation'' \<and> data_points e (Payload j) < 0"
proof (cases "Type j = ''report_generation'' \<and> data_points e (Payload j) < 0")
  case True
  then show ?thesis
    using processReportGeneration_negative[of e "j\<lparr>Status := ''processing''\<rparr>"]
    by (simp add: processJob_def bind_exec_def Let_def)
next
  case False
  show ?thesis
  proof (cases "Type j = ''report_generation''")
    case True
    with False have "0 \<le> data_points e (Payload (j\<lparr>Status := ''processing''\<rparr>))" by simp
    then obtain stats where
      "processReportGeneration e (j\<lparr>Status := ''processing''\<rparr>) = Returned (Inr stats)"
      using processReportGeneration_returns by blast
    then show ?thesis using True False
      by (simp add: processJob_def bind_exec_def Let_def)
  next
    case False
    then show ?thesis
      by (simp add: processJob_def bind_exec_def Let_def split: sum.splits)
  qed
qed

lemma processJob_error_marks_failed:
  assumes "Type j \<noteq> ''report_generation''"
  shows "processJob e j =
     (case (if Type j = ''password_hash'' then processPasswordHash e (j\<lparr>Status := ''processing''\<rparr>)
            else Inl (''unknown job type: '' @ Type j)) of
        Inl err \<Rightarrow> Returned (j\<lparr>Status := ''failed''\<rparr>,
                              [LogProcessing (ID j) (Type j), LogFailed (ID j) err])
      | Inr result \<Rightarrow> Returned (j\<lparr>Status := ''completed''\<rparr>,
                              [LogProcessing (ID j) (Type j), LogCompleted (ID j),
                               LogResult (ID j) result]))"
  using assms by (simp add: processJob_def bind_exec_def Let_def split: sum.splits)

lemma Start_panics_iff:
  "(\<exists>m. Start e js = Panicked m) \<longleftrightarrow>
     (\<exists>j \<in> set js. Type j = ''report_generation'' \<and> data_points e (Payload j) < 0)"
proof (induction js)
  case Nil
  show ?case by simp
next
  case (Cons j js)
  show ?case
  proof (cases "processJob e j")
    case (Panicked m)
    then have "Type j = ''report_generation'' \<and> data_points e (Payload j) < 0"
      using processJob_panics_iff[of e j] by blast
    then show ?thesis using Panicked by (simp add: bind_exec_def)
  next
    case (Returned r)
    then have "\<not> (Type j = ''report_generation'' \<and> data_points e (Payload j) < 0)"
      using processJob_panics_iff[of e j] by auto
    then show ?thesis using Returned Cons.IH
      by (cases "Start e js") (auto simp: bind_exec_def split: prod.splits)
  qed
qed

text \<open>
  The identifier depends on the clock through the formatted second and the readings
  modulo 36 only: two calls in the same second whose readings agree modulo 36 build
  the same identifier.
\<close>

lemma randString_loop_congruent:
  assumes "\<forall>i. 0 \<le> unix_nano (clock e i)"
      and "\<forall>i<m. unix_nano (clock e (k + (i0 + i))) mod 36
                  = unix_nano (clock e (k' + (i0 + i))) mod 36"
  shows "randString_loop e k i0 m = randString_loop e k' i0 m"
  using assms(2)
proof (induction m arbitrary: i0)
  case 0
  show ?case by simp
next
  case (Suc m)
  let ?a = "unix_nano (clock e (k + i0))" and ?b = "unix_nano (clock e (k' + i0))"
  have nn: "0 \<le> ?a + int i0" "0 \<le> ?b + int i0" using assms(1) by simp_all
  have "?a mod 36 = ?b mod 36" using Suc.prems by force
  then have "(?a + int i0) mod 36 = (?b + int i0) mod 36"
    by (rule mod_add_cong) simp
  then have idx: "(?a + int i0) smod int (length letters) = (?b + int i0) smod int (length letters)"
    using nn by (simp add: smod_mod_positive letters_def)
  have "\<forall>i<m. unix_nano (clock e (k + (Suc i0 + i))) mod 36
                  = unix_nano (clock e (k' + (Suc i0 + i))) mod 36"
  proof (intro allI impI)
    fix i assume "i < m"
    then have "Suc i < Suc m" by simp
    then show "unix_nano (clock e (k + (Suc i0 + i))) mod 36
                  = unix_nano (clock e (k' + (Suc i0 + i))) mod 36"
      using Suc.prems[rule_format, of "Suc i"] by simp
  qed
  then have "randString_loop e k (Suc i0) m = randString_loop e k' (Suc i0) m"
    by (rule Suc.IH)
  then show ?case using idx by (simp add: Let_def)
qed

lemma NewJob_same_id:
  assumes "\<forall>i. 0 \<le> unix_nano (clock e i)"
      and "format_20060102150405 (clock e k) = format_20060102150405 (clock e k')"
      and "\<forall>i<6. unix_nano (clock e (Suc k + i)) mod 36 = unix_nano (clock e (Suc k' + i)) mod 36"
  shows "new_id (NewJob e k t p) = new_id (NewJob e k' t' p')"
proof -
  have "randString_loop e (Suc k) 0 6 = randString_loop e (Suc k') 0 6"
    using assms(3) by (intro randString_loop_congruent[OF assms(1)]) simp
  then show ?thesis using assms(2)
    by (cases "randString_loop e (Suc k') 0 6")
       (simp_all add: NewJob_def generateJobID_def randString_def bind_exec_def new_id_def)
qed

lemma six_Suc: "(6::nat) = Suc (Suc (Suc (Suc (Suc (Suc 0)))))"
  by simp

lemma generateJobID_sample:
  "generateJobID sample_env 0 = Returned (''20240115103000-jt3dnx'', 7)"
  "generateJobID sample_env 8 = Returned (''20240115103000-jt3dnx'', 15)"
  unfolding generateJobID_def randString_def six_Suc randString_loop.simps
  by (simp_all add: bind_exec_def Let_def letters_def sample_env_def
      format_20060102150405_def digits2_def)

lemma sample_clock_ok: "\<forall>i. 0 \<le> unix_nano (clock sample_env i)"
  by (simp add: sample_env_def)

text \<open>
  Claim C1, as amended. For a submission of type \<open>password_hash\<close>, admission requires
  the key \<open>password\<close> to be present in the payload: when it is absent (also when the
  payload itself is absent) the handler answers 400 and hands no job to the worker,
  whatever the state of the queue; when it is present, whatever its value, validation
  passes and the queue decides: with the worker waiting to receive the handler answers
  202 and hands over a pending job, with no receiver it answers 503 and hands over
  nothing, and on the queue that shutdown has closed the send panics. A value that is
  not a string is found by the worker only: \<open>processPasswordHash\<close> returns the error
  \<open>invalid password field\<close> and the job ends \<open>failed\<close>. (The clock is taken to read a
  time after 1970, so that building the identifier does not panic.)
\<close>

theorem password_presence_checked_at_admission:
  assumes "\<forall>i. 0 \<le> unix_nano (clock e i)"
  shows "(map_get p ''password'' = None \<longrightarrow>
            HandleSubmitJob e k q (post ''password_hash'' p)
              = Returned (Error 400 (''Missing '' @ quoted ''password'' @ '' field in payload''), None))
       \<and> (map_get p ''password'' \<noteq> None \<longrightarrow>
            (case q of
               ReceiverWaiting \<Rightarrow>
                 status_code (HandleSubmitJob e k q (post ''password_hash'' p)) = Some 202
                 \<and> (\<exists>j. enqueued (HandleSubmitJob e k q (post ''password_hash'' p)) = Some j
                        \<and> Type j = ''password_hash'' \<and> Payload j = p
                        \<and> Status j = ''pending'')
             | NoReceiver \<Rightarrow>
                 HandleSubmitJob e k q (post ''password_hash'' p)
                   = Returned (Error 503 ''System overloaded, try again later'', None)
             | QueueClosed \<Rightarrow>
                 HandleSubmitJob e k q (post ''password_hash'' p)
                   = Panicked ''send on closed channel''))
       \<and> ((\<forall>s. map_get (Payload j) ''password'' \<noteq> Some (VString s)) \<longrightarrow>
            processPasswordHash e j = Inl ''invalid password field''
            \<and> (Type j = ''password_hash'' \<longrightarrow> final_status (processJob e j) = Some ''failed''))"
proof -
  have a: "map_get p ''password'' = None \<longrightarrow>
            HandleSubmitJob e k q (post ''password_hash'' p)
              = Returned (Error 400 (''Missing '' @ quoted ''password'' @ '' field in payload''), None)"
    by (simp add: HandleSubmitJob_def post_def validate_payload_def bind_exec_def)
  obtain jid where nj: "NewJob e k ''password_hash'' p =
      Returned (\<lparr>ID = jid, Type = ''password_hash'', Payload = p, CreatedAt = clock e (k + 7),
                 Status = ''pending''\<rparr>, k + 8)"
    using NewJob_returns[OF assms] by blast
  have b: "map_get p ''password'' \<noteq> None \<longrightarrow>
            (case q of
               ReceiverWaiting \<Rightarrow>
                 status_code (HandleSubmitJob e k q (post ''password_hash'' p)) = Some 202
                 \<and> (\<exists>j. enqueued (HandleSubmitJob e k q (post ''password_hash'' p)) = Some j
                        \<and> Type j = ''password_hash'' \<and> Payload j = p
                        \<and> Status j = ''pending'')
             | NoReceiver \<Rightarrow>
                 HandleSubmitJob e k q (post ''password_hash'' p)
                   = Returned (Error 503 ''System overloaded, try again later'', None)
             | QueueClosed \<Rightarrow>
                 HandleSubmitJob e k q (post ''password_hash'' p)
                   = Panicked ''send on closed channel'')"
    using nj
    by (cases q)
       (simp_all add: HandleSubmitJob_def post_def validate_payload_def bind_exec_def
          status_code_def enqueued_def)
  have c1: "(\<forall>s. map_get (Payload j) ''password'' \<noteq> Some (VString s)) \<longrightarrow>
            processPasswordHash e j = Inl ''invalid password field''"
    by (simp add: processPasswordHash_def split: option.splits gval.splits)
  have c2: "(\<forall>s. map_get (Payload j) ''password'' \<noteq> Some (VString s)) \<longrightarrow>
            Type j = ''password_hash'' \<longrightarrow> final_status (processJob e j) = Some ''failed''"
    by (simp add: processJob_def processPasswordHash_def bind_exec_def Let_def final_status_def
        split: option.splits gval.splits)
  show ?thesis using a b c1 c2 by blast
qed

text \<open>
  Claim C1 as stated fails: a \<open>password_hash\<close> submission whose \<open>password\<close> is the
  number 123 is answered 202 and its job is handed to the worker.
\<close>

theorem non_string_password_admitted:
  "status_code (HandleSubmitJob sample_env 0 ReceiverWaiting
       (post ''password_hash'' (Some [''password'' \<mapsto> VFloat64 123]))) = Some 202
   \<and> enqueued (HandleSubmitJob sample_env 0 ReceiverWaiting
       (post ''password_hash'' (Some [''password'' \<mapsto> VFloat64 123])))
       = Some \<lparr>ID = ''20240115103000-jt3dnx'', Type = ''password_hash'',
               Payload = Some [''password'' \<mapsto> VFloat64 123],
               CreatedAt = clock sample_env 7, Status = ''pending''\<rparr>"
  by (simp add: HandleSubmitJob_def post_def validate_payload_def bind_exec_def map_get_def
      status_code_def enqueued_def NewJob_def generateJobID_sample)

theorem password_presence_checked_at_admission_witness:
  "status_code (HandleSubmitJob sample_env 0 ReceiverWaiting
       (post ''password_hash'' (Some [''password'' \<mapsto> VFloat64 123]))) = Some 202
   \<and> HandleSubmitJob sample_env 0 ReceiverWaiting (post ''password_hash'' (Some Map.empty))
       = Returned (Error 400 (''Missing '' @ quoted ''password'' @ '' field in payload''), None)
   \<and> HandleSubmitJob sample_env 0 NoReceiver
       (post ''password_hash'' (Some [''password'' \<mapsto> VString ''abc123'']))
       = Returned (Error 503 ''System overloaded, try again later'', None)
   \<and> HandleSubmitJob sample_env 0 QueueClosed
       (post ''password_hash'' (Some [''password'' \<mapsto> VString ''abc123'']))
       = Panicked ''send on closed channel''
   \<and> final_status (processJob sample_env
        (sample_job ''password_hash'' (Some [''password'' \<mapsto> VFloat64 123]))) = Some ''failed''"
  using password_presence_checked_at_admission[OF sample_clock_ok,
          of "Some [''password'' \<mapsto> VFloat64 123]" 0 ReceiverWaiting
          "sample_job ''password_hash'' (Some [''password'' \<mapsto> VFloat64 123])"]
        password_presence_checked_at_admission[OF sample_clock_ok,
          of "Some Map.empty" 0 ReceiverWaiting
          "sample_job ''password_hash'' (Some [''password'' \<mapsto> VFloat64 123])"]
        password_presence_checked_at_admission[OF sample_clock_ok,
          of "Some [''password'' \<mapsto> VString ''abc123'']" 0 NoReceiver
          "sample_job ''password_hash'' (Some [''password'' \<mapsto> VFloat64 123])"]
        password_presence_checked_at_admission[OF sample_clock_ok,
          of "Some [''password'' \<mapsto> VString ''abc123'']" 0 QueueClosed
          "sample_job ''password_hash'' (Some [''password'' \<mapsto> VFloat64 123])"]
  by (simp add: map_get_def sample_job_def)

text \<open>
  Claim C2 fails on the code. A \<open>report_generation\<close> job with \<open>data_points = -1\<close>
  makes \<open>make([]float64, dataPoints)\<close> panic; the worker loop ends there and the job
  received after it, which completes when run alone, is never processed.
\<close>

theorem negative_data_points_crashes_worker:
  "Start sample_env
     [sample_job ''report_generation'' (Some [''data_points'' \<mapsto> VFloat64 (- 1)]),
      sample_job ''password_hash'' (Some [''password'' \<mapsto> VString ''abc123''])]
     = Panicked ''makeslice: len out of range''
   \<and> statuses (Start sample_env
        [sample_job ''password_hash'' (Some [''password'' \<mapsto> VString ''abc123''])])
     = Some [''completed'']"
proof -
  have dp: "data_points sample_env (Some [''data_points'' \<mapsto> VFloat64 (- 1)]) = - 1"
    by (simp add: data_points_def map_get_def float64_to_int_def ceiling_def)
  have a: "processJob sample_env
        (sample_job ''report_generation'' (Some [''data_points'' \<mapsto> VFloat64 (- 1)]))
      = Panicked ''makeslice: len out of range''"
    using dp
    by (simp add: processJob_def sample_job_def processReportGeneration_def make_float64s_def
        bind_exec_def Let_def)
  have b: "final_status (processJob sample_env
        (sample_job ''password_hash'' (Some [''password'' \<mapsto> VString ''abc123''])))
      = Some ''completed''"
    by (simp add: processJob_def sample_job_def processPasswordHash_def hash_cost_def
        map_get_def sample_env_def bind_exec_def Let_def final_status_def)
  show ?thesis
    using a b
    by (auto simp: bind_exec_def statuses_def final_status_def split: exec.splits prod.splits)
qed

text \<open>
  What the worker does with an empty dataset: \<open>computeStatistics\<close> returns the map
  holding the marker, \<open>processReportGeneration\<close> passes it on with a nil error, and
  \<open>processJob\<close> takes the branch of success.
\<close>

lemma processJob_empty_dataset:
  assumes "Type j = ''report_generation''"
      and "data_points e (Payload j) = 0"
  shows "processReportGeneration e j = Returned (Inr [''error'' \<mapsto> VString ''empty dataset''])
       \<and> processJob e j =
           Returned (j\<lparr>Status := ''completed''\<rparr>,
                     [LogProcessing (ID j) (Type j), LogCompleted (ID j),
                      LogResult (ID j) [''error'' \<mapsto> VString ''empty dataset'']])"
proof -
  have a: "\<And>j'. data_points e (Payload j') = 0 \<Longrightarrow>
     processReportGeneration e j' = Returned (Inr [''error'' \<mapsto> VString ''empty dataset''])"
    by (simp add: processReportGeneration_def make_float64s_def bind_exec_def
        computeStatistics_empty)
  have b: "processJob e j =
           Returned (j\<lparr>Status := ''completed''\<rparr>,
                     [LogProcessing (ID j) (Type j), LogCompleted (ID j),
                      LogResult (ID j) [''error'' \<mapsto> VString ''empty dataset'']])"
    using assms a[of "j\<lparr>Status := ''processing''\<rparr>"]
    by (simp add: processJob_def bind_exec_def Let_def)
  show ?thesis using a[OF assms(2)] b by blast
qed

text \<open>
  Claim C3 fails on the code. With \<open>data_points = 0\<close> the generated dataset is empty
  and \<open>computeStatistics\<close> returns the result marked \<open>error: empty dataset\<close>, but
  \<open>processReportGeneration\<close> returns it with a nil error: the job ends \<open>completed\<close>,
  not \<open>failed\<close>, and the log holds a record of completion and the marked result, not
  a record of failure.
\<close>

theorem empty_dataset_job_not_failed:
  "data_points sample_env (Some [''data_points'' \<mapsto> VFloat64 0]) = 0
   \<and> processReportGeneration sample_env
        (sample_job ''report_generation'' (Some [''data_points'' \<mapsto> VFloat64 0]))
      = Returned (Inr [''error'' \<mapsto> VString ''empty dataset''])
   \<and> final_status (processJob sample_env
        (sample_job ''report_generation'' (Some [''data_points'' \<mapsto> VFloat64 0])))
      = Some ''completed''
   \<and> final_status (processJob sample_env
        (sample_job ''report_generation'' (Some [''data_points'' \<mapsto> VFloat64 0])))
      \<noteq> Some ''failed''
   \<and> processJob sample_env
        (sample_job ''report_generation'' (Some [''data_points'' \<mapsto> VFloat64 0]))
      = Returned ((sample_job ''report_generation'' (Some [''data_points'' \<mapsto> VFloat64 0]))
                    \<lparr>Status := ''completed''\<rparr>,
           [LogProcessing ''20240115103000-jt3dnx'' ''report_generation'',
            LogCompleted ''20240115103000-jt3dnx'',
            LogResult ''20240115103000-jt3dnx'' [''error'' \<mapsto> VString ''empty dataset'']])"
proof -
  let ?j = "sample_job ''report_generation'' (Some [''data_points'' \<mapsto> VFloat64 0])"
  have dp0: "data_points sample_env (Some [''data_points'' \<mapsto> VFloat64 0]) = 0"
    by (simp add: data_points_def map_get_def float64_to_int_def)
  have dp: "data_points sample_env (Payload ?j) = 0"
    using dp0 by (simp add: sample_job_def)
  have ty: "Type ?j = ''report_generation''"
    by (simp add: sample_job_def)
  show ?thesis
    using processJob_empty_dataset[OF ty dp] dp0
    by (simp add: sample_job_def final_status_def)
qed

text \<open>
  Claim C4 fails on the code when the payload object is absent. The handler finds no
  \<open>data_points\<close> in the nil map and then writes the default into it, which panics:
  the request gets no response and no job is built, whatever the state of the queue.
\<close>

theorem absent_payload_panics_at_admission:
  "HandleSubmitJob e k q (post ''report_generation'' None)
     = Panicked ''assignment to entry in nil map''"
  by (simp add: HandleSubmitJob_def post_def validate_payload_def map_get_def map_set_def
      bind_exec_def)

text \<open>
  Claim C9 fails on the code. With a clock that advances 45 ns from one reading to the
  next, two consecutive calls of \<open>NewJob\<close> (clock readings 0 to 7 and 8 to 15, all in
  the same second) build the same identifier: the readings of the second call are
  those of the first plus 360 ns, a multiple of the 36 letters.
\<close>

theorem consecutive_jobs_same_id:
  "NewJob sample_env 0 t1 p1 =
     Returned (\<lparr>ID = ''20240115103000-jt3dnx'', Type = t1, Payload = p1,
                CreatedAt = clock sample_env 7, Status = ''pending''\<rparr>, 8)
   \<and> NewJob sample_env 8 t2 p2 =
     Returned (\<lparr>ID = ''20240115103000-jt3dnx'', Type = t2, Payload = p2,
                CreatedAt = clock sample_env 15, Status = ''pending''\<rparr>, 16)"
  by (simp add: NewJob_def generateJobID_sample bind_exec_def)


lemma float64_to_int_in_range:
  assumes "- (2 ^ 63) \<le> c" and "c < 2 ^ 63"
  shows "float64_to_int e c = (if 0 \<le> c then \<lfloor>c\<rfloor> else \<lceil>c\<rceil>)"
proof (cases "0 \<le> c")
  case True
  have "0 \<le> \<lfloor>c\<rfloor>" using True by simp
  moreover have "\<lfloor>c\<rfloor> < 2 ^ 63" using assms(2) by (simp add: floor_less_iff)
  ultimately show ?thesis using True by (simp add: float64_to_int_def Let_def)
next
  case False
  have "\<lceil>c\<rceil> \<le> 0" using False by (simp add: ceiling_le_iff)
  moreover have "- (2 ^ 63) \<le> \<lceil>c\<rceil>" using assms(1) by (simp add: le_ceiling_iff)
  ultimately show ?thesis using False by (simp add: float64_to_int_def Let_def)
qed

text \<open>
  Claim C7, as amended. For a \<open>password_hash\<close> job, when the supplied numeric cost
  converted to \<open>int\<close> (its fraction discarded) lies outside \<open>[4, 31]\<close>, that is, for a
  cost in the range of \<open>int\<close>, when the cost is below 4 or at least 32, the cost used
  for hashing is the default 10. On success the result has \<open>verified = true\<close>, the
  cost used, and \<open>hash_length\<close> the length of the hash that bcrypt returned, which is
  positive as bcrypt returns no empty hash.
\<close>

theorem cost_outside_range_uses_default:
  "(map_get p ''cost'' = Some (VFloat64 c)
      \<and> (float64_to_int e c < 4 \<or> 31 < float64_to_int e c) \<longrightarrow> hash_cost e p = 10)
   \<and> (map_get p ''cost'' = Some (VFloat64 c) \<and> - (2 ^ 63) \<le> c \<and> c < 2 ^ 63
      \<and> (c < 4 \<or> 32 \<le> c) \<longrightarrow> hash_cost e p = 10)
   \<and> (processPasswordHash e j = Inr r \<longrightarrow>
        r ''verified'' = Some (VBool True)
        \<and> r ''cost'' = Some (VInt (hash_cost e (Payload j)))
        \<and> (\<exists>pw h. map_get (Payload j) ''password'' = Some (VString pw)
              \<and> bcrypt_generate e pw (hash_cost e (Payload j)) = Inr h
              \<and> bcrypt_compare e h pw = None
              \<and> r ''hash_length'' = Some (VInt (int (length h)))))
   \<and> ((\<forall>pw k h. bcrypt_generate e pw k = Inr h \<longrightarrow> h \<noteq> [])
        \<and> processPasswordHash e j = Inr r \<longrightarrow>
        (\<exists>n. r ''hash_length'' = Some (VInt n) \<and> 0 < n))"
proof -
  have a: "map_get p ''cost'' = Some (VFloat64 c)
      \<and> (float64_to_int e c < 4 \<or> 31 < float64_to_int e c) \<longrightarrow> hash_cost e p = 10"
    by (auto simp: hash_cost_def DefaultCost_def Let_def)
  have b: "map_get p ''cost'' = Some (VFloat64 c) \<and> - (2 ^ 63) \<le> c \<and> c < 2 ^ 63
      \<and> (c < 4 \<or> 32 \<le> c) \<longrightarrow> hash_cost e p = 10"
  proof (intro impI, elim conjE)
    assume m: "map_get p ''cost'' = Some (VFloat64 c)"
       and r: "- (2 ^ 63) \<le> c" "c < 2 ^ 63" and o: "c < 4 \<or> 32 \<le> c"
    have "float64_to_int e c < 4 \<or> 31 < float64_to_int e c"
      unfolding float64_to_int_in_range[OF r] using o by (auto; linarith)
    then show "hash_cost e p = 10" using a m by blast
  qed
  have c: "processPasswordHash e j = Inr r \<longrightarrow>
        r ''verified'' = Some (VBool True)
        \<and> r ''cost'' = Some (VInt (hash_cost e (Payload j)))
        \<and> (\<exists>pw h. map_get (Payload j) ''password'' = Some (VString pw)
              \<and> bcrypt_generate e pw (hash_cost e (Payload j)) = Inr h
              \<and> bcrypt_compare e h pw = None
              \<and> r ''hash_length'' = Some (VInt (int (length h))))"
    by (auto simp: processPasswordHash_def Let_def
        split: option.splits gval.splits sum.splits)
  have d: "(\<forall>pw k h. bcrypt_generate e pw k = Inr h \<longrightarrow> h \<noteq> [])
        \<and> processPasswordHash e j = Inr r \<longrightarrow>
        (\<exists>n. r ''hash_length'' = Some (VInt n) \<and> 0 < n)"
  proof (intro impI, elim conjE)
    assume lib: "\<forall>pw k h. bcrypt_generate e pw k = Inr h \<longrightarrow> h \<noteq> []"
       and ok: "processPasswordHash e j = Inr r"
    obtain pw h where
      g: "bcrypt_generate e pw (hash_cost e (Payload j)) = Inr h"
      and l: "r ''hash_length'' = Some (VInt (int (length h)))"
      using c ok by blast
    have "h \<noteq> []" using lib g by blast
    then show "\<exists>n. r ''hash_length'' = Some (VInt n) \<and> 0 < n" using l by simp
  qed
  show ?thesis using a b c d by blast
qed

text \<open>
  Claim C7 as stated fails: the cost 31.5 lies outside \<open>[4, 31]\<close>, and the cost used
  for hashing is 31, not the default.
\<close>

theorem fractional_cost_above_31_kept:
  "(31 :: real) < 63 / 2
   \<and> hash_cost sample_env
        (Some [''password'' \<mapsto> VString ''abc123'', ''cost'' \<mapsto> VFloat64 (63 / 2)]) = 31
   \<and> hash_cost sample_env
        (Some [''password'' \<mapsto> VString ''abc123'', ''cost'' \<mapsto> VFloat64 (63 / 2)])
        \<noteq> DefaultCost
   \<and> processPasswordHash sample_env
        (sample_job ''password_hash''
           (Some [''password'' \<mapsto> VString ''abc123'', ''cost'' \<mapsto> VFloat64 (63 / 2)]))
      = Inr [''hash_length'' \<mapsto> VInt 60, ''cost'' \<mapsto> VInt 31,
             ''algorithm'' \<mapsto> VString ''bcrypt'', ''verified'' \<mapsto> VBool True]"
proof -
  have f: "float64_to_int sample_env (63 / 2) = 31"
    by (simp add: float64_to_int_def)
  have h: "hash_cost sample_env
        (Some [''password'' \<mapsto> VString ''abc123'', ''cost'' \<mapsto> VFloat64 (63 / 2)]) = 31"
    by (simp add: hash_cost_def map_get_def f)
  have g: "\<And>pw k. bcrypt_generate sample_env pw k = Inr (replicate 60 (CHR ''x''))"
    and v: "\<And>hp pw. bcrypt_compare sample_env hp pw = None"
    by (simp_all add: sample_env_def)
  show ?thesis
    by (simp add: processPasswordHash_def sample_job_def h g v map_get_def DefaultCost_def)
qed

theorem cost_outside_range_uses_default_witness:
  "hash_cost sample_env (Some [''password'' \<mapsto> VString ''abc123'', ''cost'' \<mapsto> VFloat64 40]) = 10
   \<and> hash_cost sample_env (Some [''password'' \<mapsto> VString ''abc123'', ''cost'' \<mapsto> VFloat64 (7 / 2)]) = 10
   \<and> processPasswordHash sample_env
        (sample_job ''password_hash''
           (Some [''password'' \<mapsto> VString ''abc123'', ''cost'' \<mapsto> VFloat64 40]))
      = Inr [''hash_length'' \<mapsto> VInt 60, ''cost'' \<mapsto> VInt 10,
             ''algorithm'' \<mapsto> VString ''bcrypt'', ''verified'' \<mapsto> VBool True]
   \<and> (\<exists>n. [''hash_length'' \<mapsto> VInt 60, ''cost'' \<mapsto> VInt 10,
             ''algorithm'' \<mapsto> VString ''bcrypt'', ''verified'' \<mapsto> VBool True] ''hash_length''
            = Some (VInt n) \<and> 0 < n)"
proof -
  let ?p = "Some [''password'' \<mapsto> VString ''abc123'', ''cost'' \<mapsto> VFloat64 40]"
  let ?q = "Some [''password'' \<mapsto> VString ''abc123'', ''cost'' \<mapsto> VFloat64 (7 / 2)]"
  have f: "float64_to_int sample_env 40 = 40"
    by (simp add: float64_to_int_def)
  have m: "map_get ?p ''cost'' = Some (VFloat64 40)" "map_get ?q ''cost'' = Some (VFloat64 (7 / 2))"
    by (simp_all add: map_get_def)
  have g: "\<And>pw k. bcrypt_generate sample_env pw k = Inr (replicate 60 (CHR ''x''))"
    and v: "\<And>hp pw. bcrypt_compare sample_env hp pw = None"
    by (simp_all add: sample_env_def)
  have lib: "\<forall>pw k h. bcrypt_generate sample_env pw k = Inr h \<longrightarrow> h \<noteq> []"
    by (auto simp: g)
  have h1: "hash_cost sample_env ?p = 10"
    using cost_outside_range_uses_default[of ?p 40 sample_env] m f by simp
  have h2: "hash_cost sample_env ?q = 10"
    using cost_outside_range_uses_default[of ?q "7 / 2" sample_env] m by simp
  have r: "processPasswordHash sample_env (sample_job ''password_hash'' ?p)
      = Inr [''hash_length'' \<mapsto> VInt 60, ''cost'' \<mapsto> VInt 10,
             ''algorithm'' \<mapsto> VString ''bcrypt'', ''verified'' \<mapsto> VBool True]"
    by (simp add: processPasswordHash_def sample_job_def h1 g v map_get_def)
  have l: "\<exists>n. [''hash_length'' \<mapsto> VInt 60, ''cost'' \<mapsto> VInt 10,
             ''algorithm'' \<mapsto> VString ''bcrypt'', ''verified'' \<mapsto> VBool True] ''hash_length''
            = Some (VInt n) \<and> 0 < n"
    using cost_outside_range_uses_default[of ?p 40 sample_env
            "sample_job ''password_hash'' ?p"
            "[''hash_length'' \<mapsto> VInt 60, ''cost'' \<mapsto> VInt 10,
              ''algorithm'' \<mapsto> VString ''bcrypt'', ''verified'' \<mapsto> VBool True]"]
          lib r
    by blast
  show ?thesis using h1 h2 r l by blast
qed

end
